theory Spec2Isabelle
  imports Complex_Main
begin

section \<open>LUNOS fan control: the module's constants\<close>

text \<open>
  Constants that \<^verbatim>\<open>fan.py\<close> itself defines (lines 36-44).  Times are seconds; the
  floating point numbers of the source are idealised as reals.
\<close>

definition SPEED_CHANGE_DELAY_SECONDS :: real where
  "SPEED_CHANGE_DELAY_SECONDS = 4"

definition DELAY_BETWEEN_FLIPS :: real where
  "DELAY_BETWEEN_FLIPS = 1 / 10"

definition MINIMUM_DELAY_BETWEEN_STATE_CHANGES :: real where
  "MINIMUM_DELAY_BETWEEN_STATE_CHANGES = 15"

definition VENTILATION_NORMAL :: string where
  "VENTILATION_NORMAL = ''normal''"

definition VENTILATION_SUMMER :: string where
  "VENTILATION_SUMMER = ''summer''"

text \<open>
  Constants of the host platform (\<^verbatim>\<open>homeassistant.const\<close>): the two relay states and
  the three services of the switch domain.
\<close>

definition STATE_ON :: string where "STATE_ON = ''on''"
definition STATE_OFF :: string where "STATE_OFF = ''off''"
definition SERVICE_TURN_ON :: string where "SERVICE_TURN_ON = ''turn_on''"
definition SERVICE_TURN_OFF :: string where "SERVICE_TURN_OFF = ''turn_off''"
definition SERVICE_TOGGLE :: string where "SERVICE_TOGGLE = ''toggle''"
definition ATTR_PRESET_MODES :: string where "ATTR_PRESET_MODES = ''preset_modes''"

text \<open>
  Modelled from the spec: the names that \<^verbatim>\<open>fan.py\<close> takes from the package's
  \<^verbatim>\<open>const\<close> module with \<^verbatim>\<open>from .const import *\<close>, a module that \<^verbatim>\<open>fan.py\<close>
  only imports.  The spec names the speeds OFF, LOW, MEDIUM, HIGH, TURBO and the presets ECO
  and SUMMER_VENT, and writes the OFF preset as the string "off".  Each constant is given
  the lower-case name as its value; a speed and the preset of the same name are the same
  string, and different names are different strings.
\<close>

definition SPEED_OFF :: string where "SPEED_OFF = ''off''"
definition SPEED_LOW :: string where "SPEED_LOW = ''low''"
definition SPEED_MEDIUM :: string where "SPEED_MEDIUM = ''medium''"
definition SPEED_HIGH :: string where "SPEED_HIGH = ''high''"
definition SPEED_TURBO :: string where "SPEED_TURBO = ''turbo''"

definition PRESET_OFF :: string where "PRESET_OFF = ''off''"
definition PRESET_LOW :: string where "PRESET_LOW = ''low''"
definition PRESET_MEDIUM :: string where "PRESET_MEDIUM = ''medium''"
definition PRESET_HIGH :: string where "PRESET_HIGH = ''high''"
definition PRESET_TURBO :: string where "PRESET_TURBO = ''turbo''"
definition PRESET_ECO :: string where "PRESET_ECO = ''eco''"
definition PRESET_SUMMER_VENT :: string where "PRESET_SUMMER_VENT = ''summer_vent''"
definition PRESET_EXHAUST_ONLY :: string where "PRESET_EXHAUST_ONLY = ''exhaust_only''"

definition ATTR_MODEL_NAME :: string where "ATTR_MODEL_NAME = ''model_name''"
definition ATTR_VENTILATION_MODE :: string where "ATTR_VENTILATION_MODE = ''ventilation_mode''"
definition ATTR_SPEED :: string where "ATTR_SPEED = ''speed''"
definition ATTR_CFM :: string where "ATTR_CFM = ''cfm''"
definition ATTR_CMHR :: string where "ATTR_CMHR = ''cmh''"
definition ATTR_DB :: string where "ATTR_DB = ''dB''"
definition ATTR_WATTS :: string where "ATTR_WATTS = ''watts''"
definition CONF_CONTROLLER_CODING :: string where "CONF_CONTROLLER_CODING = ''controller_coding''"
definition CONF_FAN_COUNT :: string where "CONF_FAN_COUNT = ''fan_count''"
definition CONF_RELAY_W1 :: string where "CONF_RELAY_W1 = ''relay_w1''"
definition CONF_RELAY_W2 :: string where "CONF_RELAY_W2 = ''relay_w2''"

section \<open>The controller variant\<close>

text \<open>
  One entry of the behaviour table of a variant: the dictionary stored under a speed
  name.  A key that the dictionary lacks is \<open>None\<close>.
\<close>

record behavior_entry =
  b_cfm :: "real option"
  b_chm :: "real option"
  b_db :: "real option"
  b_watts :: "real option"

text \<open>
  One entry of \<^verbatim>\<open>LUNOS_CODING_CONFIG\<close>: the dictionary of a controller variant.  The
  source reads the flags with \<^verbatim>\<open>model_config.get('supports_...')\<close> and only tests
  the result for truth, so a flag is the truth value of that read (a missing key is
  \<open>False\<close>).  \<open>cycle_seconds\<close>, \<open>supports_filter_reminder\<close> and \<open>behavior\<close> may be
  missing (\<open>None\<close>).
\<close>

record model_config =
  mc_name :: string
  default_fan_count :: int
  supports_off :: bool
  supports_summer_vent :: bool
  supports_exhaust_only :: bool
  supports_turbo_mode :: bool
  cycle_seconds :: "int option"
  supports_filter_reminder :: "bool option"
  behavior :: "(string \<times> behavior_entry) list option"

section \<open>Speed/relay codec\<close>

text \<open>
  A Python dictionary whose order matters is an association list in insertion order.
  \<^verbatim>\<open>speed_presets\<close> (lines 282-305) builds one of two dictionaries and sorts its items
  by percentage; Python's \<^verbatim>\<open>sorted\<close> is stable, as \<open>sort_key\<close> is.
\<close>

definition speed_presets :: "model_config \<Rightarrow> (string \<times> int) list" where
  "speed_presets mc =
     (let speed_levels =
        (if supports_off mc
         then [(PRESET_OFF, 0), (PRESET_LOW, 33), (PRESET_MEDIUM, 66), (PRESET_HIGH, 100)]
         else [(PRESET_LOW, 25), (PRESET_MEDIUM, 50), (PRESET_HIGH, 75), (PRESET_TURBO, 100)])
      in sort_key snd speed_levels)"

text \<open>\<^verbatim>\<open>speed_switch_states\<close> (lines 307-325): speed name to the states of W1 and W2.\<close>

definition speed_switch_states :: "model_config \<Rightarrow> (string \<times> string list) list" where
  "speed_switch_states mc =
     (if supports_off mc
      then [(SPEED_OFF, [STATE_OFF, STATE_OFF]),
            (SPEED_LOW, [STATE_ON, STATE_OFF]),
            (SPEED_MEDIUM, [STATE_OFF, STATE_ON]),
            (SPEED_HIGH, [STATE_ON, STATE_ON])]
      else [(SPEED_LOW, [STATE_OFF, STATE_OFF]),
            (SPEED_MEDIUM, [STATE_ON, STATE_OFF]),
            (SPEED_HIGH, [STATE_OFF, STATE_ON]),
            (SPEED_TURBO, [STATE_ON, STATE_ON])])"

text \<open>
  The loop of \<^verbatim>\<open>speed_name_for_percentage\<close> (lines 327-332): the first preset of the
  table whose percentage is at least the requested one; \<open>None\<close> when the loop falls
  through (the source logs an error and returns \<^verbatim>\<open>None\<close>).
\<close>

fun first_preset_at_or_above :: "int \<Rightarrow> (string \<times> int) list \<Rightarrow> string option" where
  "first_preset_at_or_above percentage [] = None"
| "first_preset_at_or_above percentage ((preset, preset_percent) # rest) =
     (if percentage \<le> preset_percent then Some preset
      else first_preset_at_or_above percentage rest)"

definition speed_name_for_percentage :: "model_config \<Rightarrow> int \<Rightarrow> string option" where
  "speed_name_for_percentage mc percentage =
     first_preset_at_or_above percentage (speed_presets mc)"

text \<open>\<^verbatim>\<open>percentage_for_speed\<close> (lines 334-337): \<^verbatim>\<open>dict.get\<close>, \<open>None\<close> for no speed.\<close>

definition percentage_for_speed :: "model_config \<Rightarrow> string option \<Rightarrow> int option" where
  "percentage_for_speed mc speed =
     (case speed of None \<Rightarrow> None | Some s \<Rightarrow> map_of (speed_presets mc) s)"

section \<open>Errors, the host and the fan object\<close>

text \<open>The exceptions that the modelled code can raise.\<close>

datatype py_error =
  AttributeError | KeyError | TypeError | IndexError | ZeroDivisionError

definition bind_err :: "'e + 'a \<Rightarrow> ('a \<Rightarrow> 'e + 'b) \<Rightarrow> 'e + 'b" where
  "bind_err m f = (case m of Inl e \<Rightarrow> Inl e | Inr x \<Rightarrow> f x)"

text \<open>Values stored in the state attribute dictionary of the entity.\<close>

datatype attr_val =
  NoneVal | Str string | StrList "string list" | IntVal int | RealVal real | BoolVal bool

datatype log_level = INFO | WARNING | ERROR

text \<open>
  What the fan does to the outside, in order: a call of a service of the switch domain
  (\<^verbatim>\<open>hass.services.async_call("switch", method, {"entity_id": id}, False)\<close>) and a
  pause (\<^verbatim>\<open>asyncio.sleep\<close>).
\<close>

datatype event = SwitchCall string string | Sleep real

text \<open>
  The host as the fan sees it: the clock read by \<^verbatim>\<open>time.time()\<close>, the state registry
  read by \<^verbatim>\<open>hass.states.get\<close> (\<open>None\<close>: no such entity), the trace of events and the
  log (level and a short form of the message).  A pause advances the clock by its length;
  everything else takes no time, and the host accepts every service call.
\<close>

record hass =
  clock :: real
  states :: "string \<rightharpoonup> string"
  events :: "event list"
  logged :: "(log_level \<times> string) list"

text \<open>
  The module-level tables that \<^verbatim>\<open>fan.py\<close> reads but does not define, taken as
  parameters: \<^verbatim>\<open>LUNOS_CODING_CONFIG\<close> (variant key to variant),
  \<^verbatim>\<open>SPEED_SWITCH_STATES\<close> (a dictionary from speed name to the list of the two relay
  states, subscripted in \<^verbatim>\<open>async_set_speed\<close>) and the factor \<^verbatim>\<open>CFM_TO_CMH\<close>.
\<close>

record module_env =
  LUNOS_CODING_CONFIG :: "string \<rightharpoonup> model_config"
  SPEED_SWITCH_STATES :: "string \<rightharpoonup> string list"
  CFM_TO_CMH :: real

text \<open>The validated platform configuration, as far as \<^verbatim>\<open>__init__\<close> reads it.\<close>

record conf =
  conf_controller_coding :: string
  conf_fan_count :: "int option"

text \<open>
  The instance attributes of \<^verbatim>\<open>LUNOSFan\<close>, without the leading underscore.
  \<open>speed = None\<close> is the unknown speed, \<open>last_state_change = None\<close> the timestamp that
  was never set.  The entity id, which only the host uses, is left out.
\<close>

record LUNOSFan =
  fan_name :: string
  speed :: "string option"
  last_state_change :: "real option"
  relay_w1 :: string
  relay_w2 :: string
  model_config :: model_config
  fan_count :: int
  attributes :: "string \<rightharpoonup> attr_val"
  vent_modes :: "string list"
  preset_modes :: "string list"
  default_preset :: string
  preset_mode :: string

type_synonym world = "hass \<times> LUNOSFan"

definition LOG :: "log_level \<Rightarrow> string \<Rightarrow> hass \<Rightarrow> hass" where
  "LOG lvl msg h = h\<lparr>logged := logged h @ [(lvl, msg)]\<rparr>"

definition asyncio_sleep :: "real \<Rightarrow> hass \<Rightarrow> hass" where
  "asyncio_sleep d h = h\<lparr>clock := clock h + max 0 d, events := events h @ [Sleep d]\<rparr>"

definition speed_val :: "string option \<Rightarrow> attr_val" where
  "speed_val s = (case s of None \<Rightarrow> NoneVal | Some n \<Rightarrow> Str n)"

definition real_val :: "real option \<Rightarrow> attr_val" where
  "real_val r = (case r of None \<Rightarrow> NoneVal | Some x \<Rightarrow> RealVal x)"

text \<open>
  Two names that the class reads but never defines.  \<^verbatim>\<open>_init_vent_modes\<close> reads
  \<^verbatim>\<open>self._ventilation_modes\<close> (line 166); the class only ever assigns
  \<^verbatim>\<open>self._vent_modes\<close>.  \<^verbatim>\<open>async_set_preset_mode\<close> calls
  \<^verbatim>\<open>self.preset_speeds()\<close> (line 377); the class only has the property
  \<^verbatim>\<open>speed_presets\<close>.  The host's base class declares neither, so each read raises
  \<^verbatim>\<open>AttributeError\<close>.
\<close>

definition ventilation_modes_attr :: "LUNOSFan \<Rightarrow> py_error + string list" where
  "ventilation_modes_attr self = Inl AttributeError"

definition preset_speeds_attr :: "LUNOSFan \<Rightarrow> py_error + (string \<times> int) list" where
  "preset_speeds_attr self = Inl AttributeError"

section \<open>Derived attributes and the recorded speed\<close>

definition empty_behavior :: behavior_entry where
  "empty_behavior = \<lparr>b_cfm = None, b_chm = None, b_db = None, b_watts = None\<rparr>"

text \<open>
  \<^verbatim>\<open>update_attributes\<close> (lines 225-266).  The variant is a record, so the test
  \<^verbatim>\<open>if not controller_config\<close> for an empty dictionary cannot succeed and is left out;
  a behaviour table that is missing or empty is falsy.
\<close>

definition update_attributes :: "module_env \<Rightarrow> world \<Rightarrow> py_error + world" where
  "update_attributes E w =
     (let (h, self0) = w;
          self = self0\<lparr>attributes := (attributes self0)(ATTR_SPEED \<mapsto> speed_val (speed self0))\<rparr>
      in case speed self of
           None \<Rightarrow> Inr (h, self)
         | Some spd \<Rightarrow>
            (case attributes self CONF_CONTROLLER_CODING of
               Some (Str coding) \<Rightarrow>
                 (case LUNOS_CODING_CONFIG E coding of
                    None \<Rightarrow> Inl KeyError
                  | Some controller_config \<Rightarrow>
                     if default_fan_count controller_config = 0 then Inl ZeroDivisionError
                     else
                       let fan_multiplier =
                             real_of_int (fan_count self) /
                             real_of_int (default_fan_count controller_config);
                           behavior_config =
                             (case behavior controller_config of None \<Rightarrow> [] | Some b \<Rightarrow> b)
                       in if behavior_config = []
                          then Inr (LOG ERROR ''Missing behavior config'' h, self)
                          else
                            let bhv = (case map_of behavior_config spd of
                                         None \<Rightarrow> empty_behavior | Some b \<Rightarrow> b)
                            in (case b_cfm bhv of
                                  Some cfm_for_mode \<Rightarrow>
                                    (let cfm = cfm_for_mode * fan_multiplier;
                                         cmh = cfm * CFM_TO_CMH E
                                     in Inr (h, self\<lparr>attributes := (attributes self)
                                          (ATTR_CFM \<mapsto> RealVal cfm, ATTR_CMHR \<mapsto> RealVal cmh,
                                           ATTR_DB \<mapsto> real_val (b_db bhv),
                                           ATTR_WATTS \<mapsto> real_val (b_watts bhv))\<rparr>))
                                | None \<Rightarrow>
                                    (case b_chm bhv of
                                       Some chm_for_mode \<Rightarrow>
                                         (let cmh = chm_for_mode * fan_multiplier
                                          in if CFM_TO_CMH E = 0 then Inl ZeroDivisionError
                                             else Inr (h, self\<lparr>attributes := (attributes self)
                                               (ATTR_CFM \<mapsto> RealVal (cmh / CFM_TO_CMH E),
                                                ATTR_CMHR \<mapsto> RealVal cmh,
                                                ATTR_DB \<mapsto> real_val (b_db bhv),
                                                ATTR_WATTS \<mapsto> real_val (b_watts bhv))\<rparr>))
                                     | None \<Rightarrow>
                                         Inr (h, self\<lparr>attributes := (attributes self)
                                           (ATTR_CFM \<mapsto> NoneVal, ATTR_CMHR \<mapsto> NoneVal,
                                            ATTR_DB \<mapsto> real_val (b_db bhv),
                                            ATTR_WATTS \<mapsto> real_val (b_watts bhv))\<rparr>))))
             | _ \<Rightarrow> Inl KeyError))"

text \<open>\<^verbatim>\<open>_update_speed\<close> (lines 428-435).\<close>

definition update_speed :: "module_env \<Rightarrow> string option \<Rightarrow> world \<Rightarrow> py_error + world" where
  "update_speed E spd w =
     (let (h, self) = w
      in case spd of
           None \<Rightarrow> Inr (h, self)
         | Some s \<Rightarrow>
             update_attributes E
               (h, self\<lparr>speed := Some s, last_state_change := Some (clock h)\<rparr>))"

section \<open>Timing guard and relay sequencer\<close>

text \<open>
  \<^verbatim>\<open>_throttle_state_changes\<close> (lines 437-446).  Subtracting the timestamp
  \<^verbatim>\<open>None\<close> from a float raises \<^verbatim>\<open>TypeError\<close>.
\<close>

definition throttle_state_changes :: "real \<Rightarrow> world \<Rightarrow> py_error + (bool \<times> world)" where
  "throttle_state_changes required_delay w =
     (let (h, self) = w
      in case last_state_change self of
           None \<Rightarrow> Inl TypeError
         | Some t \<Rightarrow>
             (let time_passed = clock h - t
              in if time_passed < required_delay
                 then (let delay = max 0 (required_delay - time_passed)
                       in Inr (True, (asyncio_sleep delay (LOG WARNING ''sleeping before changing relay'' h), self)))
                 else Inr (False, (h, self))))"

text \<open>\<^verbatim>\<open>call_switch_service\<close> (lines 500-505).\<close>

definition call_switch_service :: "string \<Rightarrow> string \<Rightarrow> world \<Rightarrow> world" where
  "call_switch_service method relay_entity_id w =
     (let (h, self) = w;
          h1 = LOG INFO ''Calling switch'' h;
          h2 = h1\<lparr>events := events h1 @ [SwitchCall method relay_entity_id]\<rparr>
      in (h2, self\<lparr>last_state_change := Some (clock h2)\<rparr>))"

text \<open>\<^verbatim>\<open>set_relay_switch_state\<close> (lines 507-511).\<close>

definition set_relay_switch_state :: "string \<Rightarrow> string \<Rightarrow> world \<Rightarrow> world" where
  "set_relay_switch_state relay_entity_id state w =
     (let (h, self) = w;
          method = (if state = STATE_ON then SERVICE_TURN_ON else SERVICE_TURN_OFF)
      in call_switch_service method relay_entity_id (LOG INFO ''Setting relay'' h, self))"

text \<open>
  \<^verbatim>\<open>async_set_speed\<close> (lines 448-469).  The subscript
  \<^verbatim>\<open>SPEED_SWITCH_STATES[speed]\<close> raises \<^verbatim>\<open>KeyError\<close> for a key that the dictionary
  lacks (the speed \<^verbatim>\<open>None\<close> among them); a falsy entry is the empty list; an
  index beyond the list raises \<^verbatim>\<open>IndexError\<close>.
\<close>

definition async_set_speed :: "module_env \<Rightarrow> string option \<Rightarrow> world \<Rightarrow> py_error + world" where
  "async_set_speed E spd w =
     (case (case spd of None \<Rightarrow> None | Some s \<Rightarrow> SPEED_SWITCH_STATES E s) of
        None \<Rightarrow> Inl KeyError
      | Some switch_states \<Rightarrow>
          (case switch_states of
             [] \<Rightarrow> Inr (LOG WARNING ''DOES NOT support speed; ignoring speed change'' (fst w), snd w)
           | s0 # others \<Rightarrow>
               bind_err (throttle_state_changes SPEED_CHANGE_DELAY_SECONDS w) (\<lambda>(throttled, w1).
                 let w2 = (LOG INFO ''Changing speed'' (fst w1), snd w1);
                     w3 = set_relay_switch_state (relay_w1 (snd w2)) s0 w2
                 in case others of
                      [] \<Rightarrow> Inl IndexError
                    | s1 # rest \<Rightarrow>
                        update_speed E spd
                          (set_relay_switch_state (relay_w2 (snd w3)) s1 w3))))"

text \<open>
  The loop of \<^verbatim>\<open>toggle_relay_to_set_lunos_mode\<close> (lines 525-527): one service call
  and one pause for each method of the list.
\<close>

fun toggle_loop :: "string list \<Rightarrow> string \<Rightarrow> world \<Rightarrow> world" where
  "toggle_loop [] entity_id w = w"
| "toggle_loop (method # methods) entity_id w =
     (let (h, self) = call_switch_service method entity_id w
      in toggle_loop methods entity_id (asyncio_sleep DELAY_BETWEEN_FLIPS h, self))"

definition toggle_methods :: "string list" where
  "toggle_methods =
     [SERVICE_TURN_OFF, SERVICE_TURN_ON, SERVICE_TURN_OFF,
      SERVICE_TURN_ON, SERVICE_TURN_OFF, SERVICE_TURN_ON]"

text \<open>\<^verbatim>\<open>toggle_relay_to_set_lunos_mode\<close> (lines 513-530).\<close>

definition toggle_relay_to_set_lunos_mode ::
    "module_env \<Rightarrow> string \<Rightarrow> world \<Rightarrow> py_error + world" where
  "toggle_relay_to_set_lunos_mode E entity_id w =
     (let saved_speed = speed (snd w)
      in async_set_speed E saved_speed (toggle_loop toggle_methods entity_id w))"

section \<open>Fan state controller\<close>

text \<open>
  \<^verbatim>\<open>async_set_percentage\<close> (lines 339-347).  The error that
  \<^verbatim>\<open>speed_name_for_percentage\<close> logs when it finds no preset is logged here.
\<close>

definition async_set_percentage :: "module_env \<Rightarrow> int \<Rightarrow> world \<Rightarrow> py_error + world" where
  "async_set_percentage E percentage w =
     (let (h, self) = w;
          spd = speed_name_for_percentage (model_config self) percentage;
          h1 = (if spd = None then LOG ERROR ''Invalid fan percentage (must be 0-100)'' h else h);
          scaled_percentage = percentage_for_speed (model_config self) spd;
          h2 = (if speed self \<noteq> spd \<and> Some percentage \<noteq> scaled_percentage
                then LOG INFO ''Set speed, rescaled'' h1 else h1)
      in update_speed E spd (h2, self))"

text \<open>\<^verbatim>\<open>is_on\<close> (lines 354-364).\<close>

definition is_on :: "LUNOSFan \<Rightarrow> bool" where
  "is_on self =
     (if speed self = None then False
      else if \<not> supports_off (model_config self) then False
      else speed self \<noteq> Some SPEED_OFF)"

text \<open>\<^verbatim>\<open>async_turn_off\<close> (lines 496-498).\<close>

definition async_turn_off :: "module_env \<Rightarrow> world \<Rightarrow> py_error + world" where
  "async_turn_off E w = async_set_percentage E 0 w"

text \<open>\<^verbatim>\<open>supports_summer_ventilation\<close> (lines 539-540).\<close>

definition supports_summer_ventilation :: "LUNOSFan \<Rightarrow> bool" where
  "supports_summer_ventilation self = (PRESET_SUMMER_VENT \<in> set (preset_modes self))"

text \<open>
  \<^verbatim>\<open>async_clear_filter_reminder\<close> (lines 533-535).  A coroutine function applied to
  its arguments gives a coroutine, here a function that still waits for the world; only
  \<^verbatim>\<open>await\<close> runs it.  Line 535 builds the coroutine and drops it.
\<close>

definition async_clear_filter_reminder :: "module_env \<Rightarrow> world \<Rightarrow> py_error + world" where
  "async_clear_filter_reminder E w =
     (let (h, self) = w;
          h1 = LOG INFO ''Clearing the filter change reminder light'' h;
          coroutine = toggle_relay_to_set_lunos_mode E (relay_w1 self)
      in Inr (h1, self))"

text \<open>\<^verbatim>\<open>async_turn_on_summer_ventilation\<close> (lines 543-554).\<close>

definition async_turn_on_summer_ventilation :: "module_env \<Rightarrow> world \<Rightarrow> py_error + world" where
  "async_turn_on_summer_ventilation E w =
     (let (h, self) = w
      in if \<not> supports_summer_ventilation self
         then Inr (LOG WARNING ''DOES NOT support summer ventilation'' h, self)
         else bind_err
                (toggle_relay_to_set_lunos_mode E (relay_w2 self)
                   (LOG INFO ''Enabling summer ventilation mode'' h, self))
                (\<lambda>(h', self').
                   Inr (h', self'\<lparr>preset_mode := PRESET_SUMMER_VENT,
                          attributes := (attributes self')
                            (ATTR_VENTILATION_MODE \<mapsto> Str VENTILATION_SUMMER)\<rparr>)))"

text \<open>\<^verbatim>\<open>async_turn_off_summer_ventilation\<close> (lines 556-571).\<close>

definition async_turn_off_summer_ventilation :: "world \<Rightarrow> py_error + world" where
  "async_turn_off_summer_ventilation w =
     (if \<not> supports_summer_ventilation (snd w) then Inr w
      else bind_err (throttle_state_changes MINIMUM_DELAY_BETWEEN_STATE_CHANGES w)
             (\<lambda>(throttled, w1).
                let w2 = (LOG INFO ''Disabling summer ventilation mode'' (fst w1), snd w1);
                    (h3, self3) = call_switch_service SERVICE_TOGGLE (relay_w2 (snd w2)) w2;
                    h4 = asyncio_sleep DELAY_BETWEEN_FLIPS h3;
                    (h5, self5) = call_switch_service SERVICE_TOGGLE (relay_w2 self3) (h4, self3)
                in Inr (h5, self5\<lparr>preset_mode := PRESET_ECO,
                          attributes := (attributes self5)
                            (ATTR_VENTILATION_MODE \<mapsto> Str VENTILATION_NORMAL)\<rparr>)))"

text \<open>
  \<^verbatim>\<open>async_set_preset_mode\<close> (lines 371-397).  \<open>turn_off\<close> is the method that
  \<^verbatim>\<open>self.turn_off()\<close> resolves to: the class defines only \<^verbatim>\<open>async_turn_off\<close>, so it
  is the one inherited from the host's base class, a parameter here.
\<close>

definition async_set_preset_mode ::
    "module_env \<Rightarrow> (world \<Rightarrow> py_error + world) \<Rightarrow> string \<Rightarrow> world \<Rightarrow> py_error + world" where
  "async_set_preset_mode E turn_off preset w =
     (let (h, self) = w
      in if preset \<notin> set (preset_modes self)
         then Inr (LOG WARNING ''preset is not valid'' h, self)
         else bind_err (preset_speeds_attr self) (\<lambda>speeds.
                if preset = PRESET_OFF then turn_off (h, self)
                else if preset = PRESET_ECO then Inr (h, self\<lparr>preset_mode := PRESET_ECO\<rparr>)
                else if preset = PRESET_SUMMER_VENT
                  then async_turn_on_summer_ventilation E (h, self)
                else (case map_of speeds preset of
                        Some percentage \<Rightarrow>
                          async_set_percentage E percentage
                            (LOG INFO ''Applying speed preset'' h, self)
                      | None \<Rightarrow>
                          Inr (LOG WARNING ''preset not supported'' h,
                               self\<lparr>preset_mode := PRESET_ECO\<rparr>))))"

section \<open>Construction\<close>

text \<open>
  \<^verbatim>\<open>_init_vent_modes\<close> (lines 153-167).  The dictionary display of line 164 is
  evaluated, and with it \<^verbatim>\<open>self._ventilation_modes\<close>, before the attributes are
  updated.
\<close>

definition init_vent_modes :: "model_config \<Rightarrow> LUNOSFan \<Rightarrow> py_error + LUNOSFan" where
  "init_vent_modes mc self0 =
     (let self = self0\<lparr>vent_modes :=
                   [VENTILATION_NORMAL]
                   @ (if supports_summer_vent mc then [PRESET_SUMMER_VENT] else [])
                   @ (if supports_exhaust_only mc then [PRESET_EXHAUST_ONLY] else [])\<rparr>
      in bind_err (ventilation_modes_attr self) (\<lambda>ventilation_modes.
           Inr (self\<lparr>attributes := (attributes self)
                  (ATTR_VENTILATION_MODE \<mapsto> Str VENTILATION_NORMAL,
                   ''vent_modes'' \<mapsto> StrList ventilation_modes)\<rparr>)))"

text \<open>The two loops of \<^verbatim>\<open>_init_presets\<close>: append each key that is not yet in the list.\<close>

fun append_missing :: "string list \<Rightarrow> string list \<Rightarrow> string list" where
  "append_missing [] modes = modes"
| "append_missing (key # keys) modes =
     append_missing keys (if key \<notin> set modes then modes @ [key] else modes)"

text \<open>\<^verbatim>\<open>_init_presets\<close> (lines 169-196).\<close>

definition init_presets :: "model_config \<Rightarrow> string \<Rightarrow> world \<Rightarrow> world" where
  "init_presets mc default_preset0 w =
     (let (h, self) = w;
          modes0 = [PRESET_ECO] @ (if supports_turbo_mode mc then [PRESET_TURBO] else []);
          modes1 = append_missing (map fst (speed_presets (model_config self))) modes0;
          modes2 = append_missing (vent_modes self) modes1;
          attrs = (attributes self)(ATTR_PRESET_MODES \<mapsto> StrList modes2);
          invalid = (default_preset0 \<notin> set modes2);
          h1 = (if invalid then LOG WARNING ''Default preset is not valid'' h else h);
          default_preset1 = (if invalid then PRESET_ECO else default_preset0)
      in (h1, self\<lparr>preset_modes := modes2, attributes := attrs,
                  default_preset := default_preset1, preset_mode := default_preset1\<rparr>))"

text \<open>The loop of \<^verbatim>\<open>_determine_current_speed\<close>: the first speed with this relay pair.\<close>

fun match_switch_state :: "string list \<Rightarrow> (string \<times> string list) list \<Rightarrow> string option" where
  "match_switch_state current_state [] = None"
| "match_switch_state current_state ((spd, switch_state) # rest) =
     (if current_state = switch_state then Some spd
      else match_switch_state current_state rest)"

text \<open>\<^verbatim>\<open>_determine_current_speed\<close> (lines 404-426): the speed found and the host with its log.\<close>

definition determine_current_speed :: "world \<Rightarrow> string option \<times> hass" where
  "determine_current_speed w =
     (let (h, self) = w
      in case states h (relay_w1 self) of
           None \<Rightarrow> (None, LOG WARNING ''W1 entity not found'' h)
         | Some w1 \<Rightarrow>
            (case states h (relay_w2 self) of
               None \<Rightarrow> (None, LOG WARNING ''W2 entity not found'' h)
             | Some w2 \<Rightarrow>
                (case match_switch_state [w1, w2] (speed_switch_states (model_config self)) of
                   None \<Rightarrow> (None, h)
                 | Some spd \<Rightarrow> (Some spd, LOG INFO ''LUNOS speed'' h))))"

text \<open>
  \<^verbatim>\<open>LUNOSFan.__init__\<close> (lines 95-151).  The attributes that the constructor has not
  assigned yet hold an empty placeholder until their assignment; none is read before.
\<close>

definition LUNOSFan_init ::
    "module_env \<Rightarrow> hass \<Rightarrow> conf \<Rightarrow> string \<Rightarrow> string \<Rightarrow> string \<Rightarrow> string \<Rightarrow> py_error + world" where
  "LUNOSFan_init E h cfg name relay1 relay2 default_preset0 =
     (let h1 = LOG WARNING ''Creating entity'' h;
          coding = conf_controller_coding cfg
      in case LUNOS_CODING_CONFIG E coding of
           None \<Rightarrow> Inl KeyError
         | Some mc \<Rightarrow>
            (let count = (case conf_fan_count cfg of
                            None \<Rightarrow> default_fan_count mc | Some n \<Rightarrow> n);
                 attrs0 = [ATTR_MODEL_NAME \<mapsto> Str (mc_name mc),
                           CONF_CONTROLLER_CODING \<mapsto> Str coding,
                           CONF_FAN_COUNT \<mapsto> IntVal count,
                           CONF_RELAY_W1 \<mapsto> Str relay1,
                           CONF_RELAY_W2 \<mapsto> Str relay2];
                 attrs1 = (case cycle_seconds mc of
                             None \<Rightarrow> attrs0
                           | Some c \<Rightarrow> attrs0(''cycle_seconds'' \<mapsto> IntVal c));
                 attrs2 = (case supports_filter_reminder mc of
                             None \<Rightarrow> attrs1
                           | Some b \<Rightarrow> attrs1(''supports_filter_reminder'' \<mapsto> BoolVal b));
                 self0 = \<lparr>fan_name = name, speed = None, last_state_change = None,
                          relay_w1 = relay1, relay_w2 = relay2, model_config = mc,
                          fan_count = count, attributes = attrs2, vent_modes = [],
                          preset_modes = [], default_preset = [], preset_mode = []\<rparr>
             in bind_err (init_vent_modes mc self0) (\<lambda>self1.
                  let (h2, self2) = init_presets mc default_preset0 (h1, self1);
                      (current_speed, h3) = determine_current_speed (h2, self2)
                  in bind_err
                       (if current_speed \<noteq> None \<and> current_speed \<noteq> Some []
                        then update_speed E current_speed (h3, self2)
                        else Inr (h3, self2))
                       (\<lambda>w4. bind_err (update_attributes E w4) (\<lambda>(h5, self5).
                          Inr (LOG INFO ''Created LUNOS fan'' h5, self5))))))"

section \<open>The switches of the host\<close>

text \<open>
  What the host's switch services do to the state of a relay, used to read a trace of
  events as the relay states it leads to.
\<close>

fun apply_event :: "event \<Rightarrow> (string \<rightharpoonup> string) \<Rightarrow> (string \<rightharpoonup> string)" where
  "apply_event (Sleep d) st = st"
| "apply_event (SwitchCall method entity_id) st =
     (if method = SERVICE_TURN_ON then st(entity_id \<mapsto> STATE_ON)
      else if method = SERVICE_TURN_OFF then st(entity_id \<mapsto> STATE_OFF)
      else if method = SERVICE_TOGGLE then
        (case st entity_id of
           None \<Rightarrow> st
         | Some v \<Rightarrow> st(entity_id \<mapsto> (if v = STATE_ON then STATE_OFF else STATE_ON)))
      else st)"

fun relays_after :: "event list \<Rightarrow> (string \<rightharpoonup> string) \<Rightarrow> (string \<rightharpoonup> string)" where
  "relays_after [] st = st"
| "relays_after (e # es) st = relays_after es (apply_event e st)"

text \<open>The six commands of the toggle sequence, each followed by its pause.\<close>

fun toggle_events :: "string list \<Rightarrow> string \<Rightarrow> event list" where
  "toggle_events [] entity_id = []"
| "toggle_events (method # methods) entity_id =
     SwitchCall method entity_id # Sleep DELAY_BETWEEN_FLIPS # toggle_events methods entity_id"

section \<open>Concrete inputs\<close>

text \<open>
  A variant with OFF and three speeds, a variant with four speeds and no OFF, the module
  tables, a host whose two relays are both on, and a fan of the first variant running at
  HIGH whose preset marker is the default preset MEDIUM.
\<close>

definition e2_config :: model_config where
  "e2_config =
     \<lparr>mc_name = ''LUNOS e2'', default_fan_count = 2, supports_off = True,
      supports_summer_vent = True, supports_exhaust_only = False,
      supports_turbo_mode = False, cycle_seconds = Some 70,
      supports_filter_reminder = Some True,
      behavior = Some
        [(''off'', empty_behavior),
         (''low'', \<lparr>b_cfm = Some 10, b_chm = None, b_db = Some 16, b_watts = Some 1\<rparr>),
         (''medium'', \<lparr>b_cfm = Some 15, b_chm = None, b_db = Some 19, b_watts = Some 2\<rparr>),
         (''high'', \<lparr>b_cfm = Some 20, b_chm = None, b_db = Some 26, b_watts = Some 3\<rparr>)]\<rparr>"

definition e2_4speed_config :: model_config where
  "e2_4speed_config = e2_config\<lparr>mc_name := ''LUNOS e2 (4-speed)'', supports_off := False\<rparr>"

definition example_env :: module_env where
  "example_env =
     \<lparr>LUNOS_CODING_CONFIG = [''e2'' \<mapsto> e2_config, ''e2-4speed'' \<mapsto> e2_4speed_config],
      SPEED_SWITCH_STATES =
        [''off'' \<mapsto> [''off'', ''off''], ''low'' \<mapsto> [''on'', ''off''],
         ''medium'' \<mapsto> [''off'', ''on''], ''high'' \<mapsto> [''on'', ''on'']],
      CFM_TO_CMH = 17 / 10\<rparr>"

definition example_hass :: hass where
  "example_hass =
     \<lparr>clock = 1000, states = [''switch.w1'' \<mapsto> ''on'', ''switch.w2'' \<mapsto> ''on''],
      events = [], logged = []\<rparr>"

definition example_fan :: LUNOSFan where
  "example_fan =
     \<lparr>fan_name = ''LUNOS'', speed = Some ''high'', last_state_change = Some 900,
      relay_w1 = ''switch.w1'', relay_w2 = ''switch.w2'', model_config = e2_config,
      fan_count = 2,
      attributes = [''controller_coding'' \<mapsto> Str ''e2'', ''speed'' \<mapsto> Str ''high''],
      vent_modes = [''normal'', ''summer_vent''],
      preset_modes = [''eco'', ''off'', ''low'', ''medium'', ''high'', ''normal'', ''summer_vent''],
      default_preset = ''medium'', preset_mode = ''medium''\<rparr>"

text \<open>
  A fan of the four-speed variant running at LOW, which the codec of that variant writes
  as both relays off, and a host whose two relays are off.
\<close>

definition example_hass_low :: hass where
  "example_hass_low =
     \<lparr>clock = 1000, states = [''switch.w1'' \<mapsto> ''off'', ''switch.w2'' \<mapsto> ''off''],
      events = [], logged = []\<rparr>"

definition example_fan_4speed :: LUNOSFan where
  "example_fan_4speed =
     \<lparr>fan_name = ''LUNOS'', speed = Some ''low'', last_state_change = Some 900,
      relay_w1 = ''switch.w1'', relay_w2 = ''switch.w2'', model_config = e2_4speed_config,
      fan_count = 2,
      attributes = [''controller_coding'' \<mapsto> Str ''e2-4speed'', ''speed'' \<mapsto> Str ''low''],
      vent_modes = [''normal'', ''summer_vent''],
      preset_modes = [''eco'', ''low'', ''medium'', ''high'', ''turbo'', ''normal'', ''summer_vent''],
      default_preset = ''medium'', preset_mode = ''medium''\<rparr>"

section \<open>Facts about the model\<close>

lemmas const_defs =
  STATE_ON_def STATE_OFF_def SERVICE_TURN_ON_def SERVICE_TURN_OFF_def SERVICE_TOGGLE_def
  ATTR_PRESET_MODES_def VENTILATION_NORMAL_def VENTILATION_SUMMER_def
  SPEED_OFF_def SPEED_LOW_def SPEED_MEDIUM_def SPEED_HIGH_def SPEED_TURBO_def
  PRESET_OFF_def PRESET_LOW_def PRESET_MEDIUM_def PRESET_HIGH_def PRESET_TURBO_def
  PRESET_ECO_def PRESET_SUMMER_VENT_def PRESET_EXHAUST_ONLY_def
  ATTR_MODEL_NAME_def ATTR_VENTILATION_MODE_def ATTR_SPEED_def ATTR_CFM_def ATTR_CMHR_def
  ATTR_DB_def ATTR_WATTS_def CONF_CONTROLLER_CODING_def CONF_FAN_COUNT_def
  CONF_RELAY_W1_def CONF_RELAY_W2_def
  SPEED_CHANGE_DELAY_SECONDS_def DELAY_BETWEEN_FLIPS_def
  MINIMUM_DELAY_BETWEEN_STATE_CHANGES_def

subsection \<open>The percentage table\<close>

lemma speed_presets_off:
  "supports_off mc \<Longrightarrow> speed_presets mc =
     [(PRESET_OFF, 0), (PRESET_LOW, 33), (PRESET_MEDIUM, 66), (PRESET_HIGH, 100)]"
  by (simp add: speed_presets_def)

lemma speed_presets_no_off:
  "\<not> supports_off mc \<Longrightarrow> speed_presets mc =
     [(PRESET_LOW, 25), (PRESET_MEDIUM, 50), (PRESET_HIGH, 75), (PRESET_TURBO, 100)]"
  by (simp add: speed_presets_def)

lemma speed_presets_sorted: "sorted (map snd (speed_presets mc))"
  by (cases "supports_off mc") (simp_all add: speed_presets_off speed_presets_no_off)

lemma first_preset_None:
  "(first_preset_at_or_above p tbl = None) = (\<forall>x \<in> set tbl. snd x < p)"
  by (induction tbl) (auto split: if_splits)

lemma first_preset_least:
  "sorted (map snd tbl) \<Longrightarrow> first_preset_at_or_above p tbl = Some s \<Longrightarrow>
   \<exists>q. (s, q) \<in> set tbl \<and> p \<le> q \<and> (\<forall>x \<in> set tbl. p \<le> snd x \<longrightarrow> q \<le> snd x)"
proof (induction tbl)
  case Nil
  then show ?case by simp
next
  case (Cons a tbl)
  obtain s0 q0 where a: "a = (s0, q0)" by (cases a)
  from Cons.prems(1) a have above: "\<forall>x \<in> set tbl. q0 \<le> snd x" and tl: "sorted (map snd tbl)"
    by auto
  show ?case
  proof (cases "p \<le> q0")
    case True
    with Cons.prems(2) a have "s = s0" by simp
    with True above a show ?thesis by auto
  next
    case False
    with Cons.prems(2) a have "first_preset_at_or_above p tbl = Some s" by simp
    with Cons.IH tl obtain q where "(s, q) \<in> set tbl" "p \<le> q"
      "\<forall>x \<in> set tbl. p \<le> snd x \<longrightarrow> q \<le> snd x" by blast
    with False a show ?thesis by auto
  qed
qed

lemma first_bucket_at_or_above:
  "sorted (map snd (speed_presets mc)) \<and>
   ((speed_name_for_percentage mc p = None) = (100 < p)) \<and>
   (p \<le> 100 \<longrightarrow>
      (\<exists>s q. speed_name_for_percentage mc p = Some s \<and> (s, q) \<in> set (speed_presets mc) \<and>
             p \<le> q \<and> (\<forall>x \<in> set (speed_presets mc). p \<le> snd x \<longrightarrow> q \<le> snd x)))"
proof -
  have none: "(speed_name_for_percentage mc p = None) = (100 < p)"
    unfolding speed_name_for_percentage_def first_preset_None
    by (cases "supports_off mc") (auto simp: speed_presets_off speed_presets_no_off)
  have "\<exists>s q. speed_name_for_percentage mc p = Some s \<and> (s, q) \<in> set (speed_presets mc) \<and>
             p \<le> q \<and> (\<forall>x \<in> set (speed_presets mc). p \<le> snd x \<longrightarrow> q \<le> snd x)"
    if "p \<le> 100"
  proof -
    from that none obtain s where s: "speed_name_for_percentage mc p = Some s" by auto
    then have "first_preset_at_or_above p (speed_presets mc) = Some s"
      by (simp add: speed_name_for_percentage_def)
    from first_preset_least [OF speed_presets_sorted this] s show ?thesis by blast
  qed
  with none speed_presets_sorted show ?thesis by blast
qed

subsection \<open>Attributes, recorded speed and the toggle loop\<close>

lemma update_attributes_host:
  "update_attributes E w = Inr w' \<Longrightarrow>
   events (fst w') = events (fst w) \<and> clock (fst w') = clock (fst w) \<and>
   speed (snd w') = speed (snd w) \<and> last_state_change (snd w') = last_state_change (snd w) \<and>
   relay_w1 (snd w') = relay_w1 (snd w) \<and> relay_w2 (snd w') = relay_w2 (snd w) \<and>
   preset_mode (snd w') = preset_mode (snd w)"
  unfolding update_attributes_def
  by (cases w) (auto simp: Let_def LOG_def split: option.splits attr_val.splits if_splits)

lemma update_speed_host:
  "update_speed E spd w = Inr w' \<Longrightarrow>
   events (fst w') = events (fst w) \<and> clock (fst w') = clock (fst w) \<and>
   relay_w1 (snd w') = relay_w1 (snd w) \<and> relay_w2 (snd w') = relay_w2 (snd w) \<and>
   preset_mode (snd w') = preset_mode (snd w) \<and>
   speed (snd w') = (case spd of None \<Rightarrow> speed (snd w) | Some s \<Rightarrow> Some s)"
  unfolding update_speed_def
  by (cases w; cases spd) (auto dest!: update_attributes_host)

lemma async_set_percentage_events:
  "async_set_percentage E p w = Inr w' \<Longrightarrow> events (fst w') = events (fst w)"
  unfolding async_set_percentage_def
  by (cases w) (auto simp: Let_def LOG_def dest!: update_speed_host split: if_splits)

lemma call_switch_service_effect:
  "call_switch_service m e (h, self) =
     (h\<lparr>events := events h @ [SwitchCall m e], logged := logged h @ [(INFO, ''Calling switch'')]\<rparr>,
      self\<lparr>last_state_change := Some (clock h)\<rparr>)"
  by (simp add: call_switch_service_def LOG_def Let_def)

lemma toggle_loop_events:
  "events (fst (toggle_loop ms e w)) = events (fst w) @ toggle_events ms e"
  by (induction ms arbitrary: w)
     (auto simp: call_switch_service_effect asyncio_sleep_def split: prod.splits)

lemma toggle_loop_clock:
  "clock (fst (toggle_loop ms e w)) = clock (fst w) + real (length ms) * DELAY_BETWEEN_FLIPS"
  by (induction ms arbitrary: w)
     (auto simp: call_switch_service_effect asyncio_sleep_def DELAY_BETWEEN_FLIPS_def
        algebra_simps split: prod.splits)

lemma toggle_loop_timestamp:
  "ms \<noteq> [] \<Longrightarrow>
   last_state_change (snd (toggle_loop ms e w))
     = Some (clock (fst (toggle_loop ms e w)) - DELAY_BETWEEN_FLIPS)"
proof (induction ms arbitrary: w)
  case Nil
  then show ?case by simp
next
  case (Cons m ms)
  obtain h self where w: "w = (h, self)" by (cases w)
  show ?case
  proof (cases "ms = []")
    case True
    with w show ?thesis
      by (simp add: call_switch_service_effect asyncio_sleep_def DELAY_BETWEEN_FLIPS_def)
  next
    case False
    with w Cons.IH show ?thesis
      by (simp add: call_switch_service_effect)
  qed
qed

lemma toggle_loop_fan:
  "relay_w1 (snd (toggle_loop ms e w)) = relay_w1 (snd w) \<and>
   relay_w2 (snd (toggle_loop ms e w)) = relay_w2 (snd w) \<and>
   speed (snd (toggle_loop ms e w)) = speed (snd w)"
  by (induction ms arbitrary: w)
     (auto simp: call_switch_service_effect asyncio_sleep_def split: prod.splits)

lemma relays_after_append:
  "relays_after (xs @ ys) st = relays_after ys (relays_after xs st)"
  by (induction xs arbitrary: st) auto

lemma async_set_speed_missing_key:
  "SPEED_SWITCH_STATES E s = None \<Longrightarrow> async_set_speed E (Some s) w = Inl KeyError"
  by (simp add: async_set_speed_def)

lemma async_set_speed_unknown: "async_set_speed E None w = Inl KeyError"
  by (simp add: async_set_speed_def)

lemma turn_off_summer_ventilation_with_timestamp:
  assumes "supports_summer_ventilation self" and "last_state_change self = Some t"
  shows "\<exists>h' self'. async_turn_off_summer_ventilation (h, self) = Inr (h', self') \<and>
           events h' = events h
             @ (if clock h - t < MINIMUM_DELAY_BETWEEN_STATE_CHANGES
                then [Sleep (max 0 (MINIMUM_DELAY_BETWEEN_STATE_CHANGES - (clock h - t)))] else [])
             @ [SwitchCall SERVICE_TOGGLE (relay_w2 self), Sleep DELAY_BETWEEN_FLIPS,
                SwitchCall SERVICE_TOGGLE (relay_w2 self)] \<and>
           t + MINIMUM_DELAY_BETWEEN_STATE_CHANGES \<le> clock h' - DELAY_BETWEEN_FLIPS \<and>
           attributes self' ATTR_VENTILATION_MODE = Some (Str VENTILATION_NORMAL) \<and>
           preset_mode self' = PRESET_ECO \<and> speed self' = speed self"
  using assms
  by (auto simp: async_turn_off_summer_ventilation_def throttle_state_changes_def bind_err_def
        call_switch_service_effect asyncio_sleep_def LOG_def Let_def
        MINIMUM_DELAY_BETWEEN_STATE_CHANGES_def DELAY_BETWEEN_FLIPS_def)

lemma toggle_sequence_events:
  assumes run: "toggle_relay_to_set_lunos_mode E relay_id (h, self) = Inr (h', self')"
    and saved: "speed self = Some saved_speed"
    and pair: "SPEED_SWITCH_STATES E saved_speed = Some [s1, s2]"
    and onoff: "s1 \<in> {STATE_ON, STATE_OFF}" "s2 \<in> {STATE_ON, STATE_OFF}"
    and distinct: "relay_w1 self \<noteq> relay_w2 self"
  shows "events h' = events h @
           [SwitchCall SERVICE_TURN_OFF relay_id, Sleep DELAY_BETWEEN_FLIPS,
            SwitchCall SERVICE_TURN_ON relay_id, Sleep DELAY_BETWEEN_FLIPS,
            SwitchCall SERVICE_TURN_OFF relay_id, Sleep DELAY_BETWEEN_FLIPS,
            SwitchCall SERVICE_TURN_ON relay_id, Sleep DELAY_BETWEEN_FLIPS,
            SwitchCall SERVICE_TURN_OFF relay_id, Sleep DELAY_BETWEEN_FLIPS,
            SwitchCall SERVICE_TURN_ON relay_id, Sleep DELAY_BETWEEN_FLIPS,
            Sleep (SPEED_CHANGE_DELAY_SECONDS - DELAY_BETWEEN_FLIPS),
            SwitchCall (if s1 = STATE_ON then SERVICE_TURN_ON else SERVICE_TURN_OFF) (relay_w1 self),
            SwitchCall (if s2 = STATE_ON then SERVICE_TURN_ON else SERVICE_TURN_OFF) (relay_w2 self)] \<and>
         relays_after (drop (length (events h)) (events h')) st (relay_w1 self) = Some s1 \<and>
         relays_after (drop (length (events h)) (events h')) st (relay_w2 self) = Some s2 \<and>
         speed self' = Some saved_speed"
proof -
  define w6 where "w6 = toggle_loop toggle_methods relay_id (h, self)"
  obtain h6 self6 where w6: "w6 = (h6, self6)" by (cases w6)
  have ev6: "events h6 = events h @ toggle_events toggle_methods relay_id"
    using toggle_loop_events [of toggle_methods relay_id "(h, self)"] w6 w6_def by simp
  have ts6: "last_state_change self6 = Some (clock h6 - DELAY_BETWEEN_FLIPS)"
    using toggle_loop_timestamp [of toggle_methods relay_id "(h, self)"] w6 w6_def
    by (simp add: toggle_methods_def)
  have fan6: "relay_w1 self6 = relay_w1 self" "relay_w2 self6 = relay_w2 self"
    using toggle_loop_fan [of toggle_methods relay_id "(h, self)"] w6 w6_def by simp_all
  define hw where "hw = asyncio_sleep (SPEED_CHANGE_DELAY_SECONDS - DELAY_BETWEEN_FLIPS)
                          (LOG WARNING ''sleeping before changing relay'' h6)"
  have thr: "throttle_state_changes SPEED_CHANGE_DELAY_SECONDS (h6, self6) = Inr (True, (hw, self6))"
    using ts6
    by (simp add: throttle_state_changes_def hw_def SPEED_CHANGE_DELAY_SECONDS_def
          DELAY_BETWEEN_FLIPS_def Let_def)
  define w9 where "w9 = set_relay_switch_state (relay_w2 self) s2
                          (set_relay_switch_state (relay_w1 self) s1
                             (LOG INFO ''Changing speed'' hw, self6))"
  have upd: "update_speed E (Some saved_speed) w9 = Inr (h', self')"
    using run saved pair thr fan6 w6 w6_def
    by (simp add: toggle_relay_to_set_lunos_mode_def async_set_speed_def bind_err_def w9_def
          set_relay_switch_state_def call_switch_service_effect Let_def)
  have ev9: "events (fst w9) = events hw @
               [SwitchCall (if s1 = STATE_ON then SERVICE_TURN_ON else SERVICE_TURN_OFF) (relay_w1 self),
                SwitchCall (if s2 = STATE_ON then SERVICE_TURN_ON else SERVICE_TURN_OFF) (relay_w2 self)]"
    by (simp add: w9_def set_relay_switch_state_def call_switch_service_effect LOG_def Let_def)
  have evw: "events hw = events h6 @ [Sleep (SPEED_CHANGE_DELAY_SECONDS - DELAY_BETWEEN_FLIPS)]"
    by (simp add: hw_def asyncio_sleep_def LOG_def)
  from update_speed_host [OF upd] have "events h' = events (fst w9)" "speed self' = Some saved_speed"
    by simp_all
  with ev9 evw ev6 have ev: "events h' = events h @
           [SwitchCall SERVICE_TURN_OFF relay_id, Sleep DELAY_BETWEEN_FLIPS,
            SwitchCall SERVICE_TURN_ON relay_id, Sleep DELAY_BETWEEN_FLIPS,
            SwitchCall SERVICE_TURN_OFF relay_id, Sleep DELAY_BETWEEN_FLIPS,
            SwitchCall SERVICE_TURN_ON relay_id, Sleep DELAY_BETWEEN_FLIPS,
            SwitchCall SERVICE_TURN_OFF relay_id, Sleep DELAY_BETWEEN_FLIPS,
            SwitchCall SERVICE_TURN_ON relay_id, Sleep DELAY_BETWEEN_FLIPS,
            Sleep (SPEED_CHANGE_DELAY_SECONDS - DELAY_BETWEEN_FLIPS),
            SwitchCall (if s1 = STATE_ON then SERVICE_TURN_ON else SERVICE_TURN_OFF) (relay_w1 self),
            SwitchCall (if s2 = STATE_ON then SERVICE_TURN_ON else SERVICE_TURN_OFF) (relay_w2 self)]"
    and sp: "speed self' = Some saved_speed"
    by (simp_all add: toggle_methods_def)
  have last2: "relays_after
          [SwitchCall (if s1 = STATE_ON then SERVICE_TURN_ON else SERVICE_TURN_OFF) (relay_w1 self),
           SwitchCall (if s2 = STATE_ON then SERVICE_TURN_ON else SERVICE_TURN_OFF) (relay_w2 self)] st'
          (relay_w1 self) = Some s1 \<and>
        relays_after
          [SwitchCall (if s1 = STATE_ON then SERVICE_TURN_ON else SERVICE_TURN_OFF) (relay_w1 self),
           SwitchCall (if s2 = STATE_ON then SERVICE_TURN_ON else SERVICE_TURN_OFF) (relay_w2 self)] st'
          (relay_w2 self) = Some s2" for st'
    using onoff distinct by (auto simp: const_defs)
  have split: "drop (length (events h)) (events h') =
      ([SwitchCall SERVICE_TURN_OFF relay_id, Sleep DELAY_BETWEEN_FLIPS,
        SwitchCall SERVICE_TURN_ON relay_id, Sleep DELAY_BETWEEN_FLIPS,
        SwitchCall SERVICE_TURN_OFF relay_id, Sleep DELAY_BETWEEN_FLIPS,
        SwitchCall SERVICE_TURN_ON relay_id, Sleep DELAY_BETWEEN_FLIPS,
        SwitchCall SERVICE_TURN_OFF relay_id, Sleep DELAY_BETWEEN_FLIPS,
        SwitchCall SERVICE_TURN_ON relay_id, Sleep DELAY_BETWEEN_FLIPS,
        Sleep (SPEED_CHANGE_DELAY_SECONDS - DELAY_BETWEEN_FLIPS)]) @
       [SwitchCall (if s1 = STATE_ON then SERVICE_TURN_ON else SERVICE_TURN_OFF) (relay_w1 self),
        SwitchCall (if s2 = STATE_ON then SERVICE_TURN_ON else SERVICE_TURN_OFF) (relay_w2 self)]"
    by (simp add: ev)
  have "relays_after (drop (length (events h)) (events h')) st (relay_w1 self) = Some s1"
    and "relays_after (drop (length (events h)) (events h')) st (relay_w2 self) = Some s2"
    unfolding split relays_after_append using last2 by blast+
  with ev sp show ?thesis by blast
qed

text \<open>
  LOW is a speed of both variants, with different relay pairs, so no module-level table
  agrees with the codec of both.
\<close>

lemma no_module_table_is_the_codec:
  "\<not> (SPEED_SWITCH_STATES E SPEED_LOW = map_of (speed_switch_states e2_config) SPEED_LOW \<and>
      SPEED_SWITCH_STATES E SPEED_LOW = map_of (speed_switch_states e2_4speed_config) SPEED_LOW)"
  by (simp add: speed_switch_states_def e2_config_def e2_4speed_config_def const_defs)

section \<open>Properties of the controller\<close>

text \<open>
  C1.  A call of \<open>setPercentage\<close> that resolves to a speed other than the current one
  should go through \<open>setSpeed\<close> and write W1 and W2.  The source calls
  \<^verbatim>\<open>_update_speed\<close> instead of \<^verbatim>\<open>async_set_speed\<close>: on the fan running at HIGH,
  \<open>setPercentage(0)\<close> resolves to OFF, records OFF and recomputes the airflow attribute,
  and the trace of events stays empty, so no relay command is issued.
\<close>

theorem set_percentage_issues_no_relay_command:
  "speed example_fan = Some SPEED_HIGH \<and>
   speed_name_for_percentage (model_config example_fan) 0 = Some SPEED_OFF \<and>
   map_sum id (\<lambda>(h, self). (events h, speed self, attributes self ATTR_CFM))
     (async_set_percentage example_env 0 (example_hass, example_fan))
   = Inr ([], Some SPEED_OFF, Some NoneVal)"
  by (simp add: async_set_percentage_def speed_name_for_percentage_def percentage_for_speed_def
        speed_presets_def update_speed_def update_attributes_def example_env_def
        example_hass_def example_fan_def e2_config_def e2_4speed_config_def empty_behavior_def
        speed_val_def real_val_def LOG_def Let_def const_defs)

text \<open>
  C2.  Constructing a fan never completes: for a variant key that the table has,
  \<^verbatim>\<open>_init_vent_modes\<close> raises \<^verbatim>\<open>AttributeError\<close> at the read of
  \<^verbatim>\<open>self._ventilation_modes\<close>; for a key that the table lacks, the subscript raises
  \<^verbatim>\<open>KeyError\<close> before.
\<close>

theorem LUNOSFan_init_raises:
  "LUNOSFan_init E h cfg name relay1 relay2 default_preset0 =
     Inl (case LUNOS_CODING_CONFIG E (conf_controller_coding cfg) of
            None \<Rightarrow> KeyError | Some mc \<Rightarrow> AttributeError)"
  by (simp add: LUNOSFan_init_def init_vent_modes_def ventilation_modes_attr_def
        bind_err_def Let_def split: option.splits)

text \<open>
  C3.  \<open>clearFilterReminder\<close> should run the six-toggle sequence on W1.  The source
  builds the coroutine of \<^verbatim>\<open>toggle_relay_to_set_lunos_mode\<close> and never awaits it: the
  call returns with the trace of events and the fan as they were.
\<close>

theorem clear_filter_reminder_issues_no_command:
  "map_sum id (\<lambda>(h, self). (events h, self)) (async_clear_filter_reminder E (h0, self0))
   = Inr (events h0, self0)"
  by (simp add: async_clear_filter_reminder_def LOG_def Let_def)

text \<open>
  C4, as amended.  For a preset name that is not in the fan's list of preset modes,
  \<open>setPresetMode\<close> logs a warning and returns: no relay command is issued and the fan,
  with its preset marker, is unchanged.
\<close>

theorem set_preset_mode_unlisted_name:
  "preset \<notin> set (preset_modes self) \<Longrightarrow>
   async_set_preset_mode E turn_off preset (h, self)
     = Inr (LOG WARNING ''preset is not valid'' h, self) \<and>
   events (LOG WARNING ''preset is not valid'' h) = events h"
  by (simp add: async_set_preset_mode_def LOG_def)

theorem set_preset_mode_unlisted_name_witness:
  "''bogus'' \<notin> set (preset_modes example_fan) \<and>
   async_set_preset_mode example_env (async_turn_off example_env) ''bogus''
       (example_hass, example_fan)
     = Inr (LOG WARNING ''preset is not valid'' example_hass, example_fan)"
proof -
  have h: "''bogus'' \<notin> set (preset_modes example_fan)"
    by (simp add: example_fan_def)
  from set_preset_mode_unlisted_name [OF h] h show ?thesis by simp
qed

text \<open>
  C4, as stated, fails: the name \<open>bogus\<close> is not a preset of the example fan, whose marker
  is MEDIUM, and after \<open>setPresetMode\<close> the marker is still MEDIUM, not ECO.
\<close>

theorem set_preset_mode_no_eco_fallback_counterexample:
  "map_sum id (\<lambda>(h, self). preset_mode self)
     (async_set_preset_mode example_env (async_turn_off example_env) ''bogus''
        (example_hass, example_fan))
   = Inr ''medium'' \<and> ''medium'' \<noteq> PRESET_ECO"
  by (simp add: async_set_preset_mode_def example_fan_def LOG_def const_defs)

text \<open>
  C5.  \<open>toggleSequence\<close> should end with the relay pair that the codec of the variant
  gives for the saved speed.  The six commands and their pauses are issued
  (\<open>toggle_sequence_events\<close>), but the restore reads the module-level table
  \<^verbatim>\<open>SPEED_SWITCH_STATES\<close>, not \<^verbatim>\<open>speed_switch_states()\<close>.  With the table of the
  variant with OFF, the run on a four-speed fan at LOW returns normally and writes W1 on
  and W2 off; the codec of the fan gives both off for LOW and reads the pair on, off as
  MEDIUM.
\<close>

theorem toggle_sequence_restores_module_table_pair:
  "(let r = toggle_relay_to_set_lunos_mode example_env ''switch.w2''
              (example_hass_low, example_fan_4speed)
    in \<not> isl r \<and>
       speed example_fan_4speed = Some SPEED_LOW \<and>
       map_of (speed_switch_states (model_config example_fan_4speed)) SPEED_LOW
         = Some [STATE_OFF, STATE_OFF] \<and>
       drop 13 (events (fst (projr r)))
         = [SwitchCall SERVICE_TURN_ON ''switch.w1'', SwitchCall SERVICE_TURN_OFF ''switch.w2''] \<and>
       relays_after (events (fst (projr r))) (states example_hass_low) ''switch.w1''
         = Some STATE_ON \<and>
       relays_after (events (fst (projr r))) (states example_hass_low) ''switch.w2''
         = Some STATE_OFF \<and>
       match_switch_state [STATE_ON, STATE_OFF]
           (speed_switch_states (model_config example_fan_4speed)) = Some SPEED_MEDIUM \<and>
       speed (snd (projr r)) = Some SPEED_LOW)"
  by (simp add: toggle_relay_to_set_lunos_mode_def toggle_methods_def async_set_speed_def
        throttle_state_changes_def bind_err_def call_switch_service_def
        set_relay_switch_state_def asyncio_sleep_def update_speed_def update_attributes_def
        speed_switch_states_def
        example_env_def example_hass_low_def example_fan_4speed_def e2_config_def
        e2_4speed_config_def empty_behavior_def speed_val_def real_val_def LOG_def Let_def
        const_defs)

text \<open>
  C6.  \<open>disableSummerVentilation\<close> on a variant with summer ventilation should wait,
  toggle W2 twice and set the mode to NORMAL.  On a fan whose timestamp was never set
  (no speed has been determined and no relay switched yet), the guard subtracts
  \<^verbatim>\<open>None\<close> and the call raises \<^verbatim>\<open>TypeError\<close>.  With a timestamp the call waits,
  toggles and sets the mode (\<open>turn_off_summer_ventilation_with_timestamp\<close>).
\<close>

theorem turn_off_summer_ventilation_without_timestamp:
  "supports_summer_ventilation (example_fan\<lparr>speed := None, last_state_change := None\<rparr>) \<and>
   async_turn_off_summer_ventilation
     (example_hass, example_fan\<lparr>speed := None, last_state_change := None\<rparr>) = Inl TypeError"
  by (simp add: async_turn_off_summer_ventilation_def supports_summer_ventilation_def
        throttle_state_changes_def bind_err_def example_fan_def const_defs)

text \<open>
  C7.  \<open>setSpeed\<close> with a speed that the table lacks should log a warning and return.
  The subscript \<^verbatim>\<open>SPEED_SWITCH_STATES[speed]\<close> raises \<^verbatim>\<open>KeyError\<close> before the
  test that guards the warning.
\<close>

theorem set_speed_unsupported_speed_raises:
  "SPEED_SWITCH_STATES example_env ''bogus'' = None \<and>
   map_of (speed_switch_states (model_config example_fan)) ''bogus'' = None \<and>
   async_set_speed example_env (Some ''bogus'') (example_hass, example_fan) = Inl KeyError"
  by (simp add: async_set_speed_def example_env_def speed_switch_states_def example_fan_def
        e2_config_def const_defs)

text \<open>
  C8.  \<open>speedFor(p)\<close> should fail for every \<open>p\<close> outside \<open>[0, 100]\<close>, as the message
  of its own error says (must be 0-100).  The loop has no lower bound: \<open>-1\<close> is outside
  the range and \<open>speedFor(-1)\<close> is OFF on the variant with OFF and LOW on the four-speed
  variant, while \<open>101\<close> fails.
\<close>

theorem speed_name_for_negative_percentage:
  "(- 1 :: int) \<notin> {0..100} \<and>
   speed_name_for_percentage e2_config (- 1) = Some PRESET_OFF \<and>
   speed_name_for_percentage e2_4speed_config (- 1) = Some PRESET_LOW \<and>
   speed_name_for_percentage e2_config 101 = None"
  by (simp add: speed_name_for_percentage_def speed_presets_def e2_config_def
        e2_4speed_config_def)



text \<open>
  C10.  On a variant without OFF, \<open>is_on\<close> is false whatever the speed; and \<open>is_on\<close> is
  false whenever the speed is unknown.
\<close>

theorem is_on_false_without_off:
  "(\<not> supports_off (model_config self) \<longrightarrow> is_on self = False) \<and>
   (speed self = None \<longrightarrow> is_on self = False)"
  by (simp add: is_on_def)

theorem is_on_false_without_off_witness:
  "\<not> supports_off (model_config (example_fan\<lparr>model_config := e2_4speed_config, speed := Some SPEED_HIGH\<rparr>)) \<and>
   is_on (example_fan\<lparr>model_config := e2_4speed_config, speed := Some SPEED_HIGH\<rparr>) = False \<and>
   speed (example_fan\<lparr>speed := None\<rparr>) = None \<and>
   is_on (example_fan\<lparr>speed := None\<rparr>) = False"
  using is_on_false_without_off [of "example_fan\<lparr>model_config := e2_4speed_config, speed := Some SPEED_HIGH\<rparr>"]
        is_on_false_without_off [of "example_fan\<lparr>speed := None\<rparr>"]
  by (simp add: e2_4speed_config_def)

end
